theory Spec2Isabelle
  imports Complex_Main
begin

section \<open>Values, errors and the bar series\<close>

text \<open>
  The columns of the data frame hold Python floats. Only comparisons are applied to them
  by the signal pipeline, and a float comparison is exact, so a float is modelled as
  either the undefined value \<open>NaN\<close> (what the indicator library leaves in a warm-up
  row) or a real number. Every comparison with \<open>NaN\<close> is false, as in Python.
\<close>

datatype pyfloat = NaN | Num real

fun py_ge :: "pyfloat \<Rightarrow> pyfloat \<Rightarrow> bool" where
  "py_ge (Num a) (Num b) = (b \<le> a)"
| "py_ge _ _ = False"

fun py_le :: "pyfloat \<Rightarrow> pyfloat \<Rightarrow> bool" where
  "py_le (Num a) (Num b) = (a \<le> b)"
| "py_le _ _ = False"

datatype error = KeyError int | IndexError int | OrderRejected

text \<open>
  One row of the data frame after \<open>calculate_indicators\<close>: the price columns of the
  CSV file and the three indicator columns.
\<close>

record bar =
  Open :: pyfloat
  High :: pyfloat
  Low :: pyfloat
  Close :: pyfloat
  Volume :: pyfloat
  EMA :: pyfloat
  RSI :: pyfloat
  ATR :: pyfloat

text \<open>The row once \<open>df['EMAsignal']\<close> is assigned, and once \<open>df['TotSignal']\<close> is.\<close>

record sigbar = bar +
  EMAsignal :: int

record totbar = sigbar +
  TotSignal :: int

definition with_EMAsignal :: "bar \<Rightarrow> int \<Rightarrow> sigbar" where
  "with_EMAsignal b s =
     \<lparr>Open = Open b, High = High b, Low = Low b, Close = Close b, Volume = Volume b,
      EMA = EMA b, RSI = RSI b, ATR = ATR b, EMAsignal = s\<rparr>"

definition with_TotSignal :: "sigbar \<Rightarrow> int \<Rightarrow> totbar" where
  "with_TotSignal r t =
     \<lparr>Open = Open r, High = High r, Low = Low r, Close = Close r, Volume = Volume r,
      EMA = EMA r, RSI = RSI r, ATR = ATR r, EMAsignal = EMAsignal r, TotSignal = t\<rparr>"

text \<open>The trend labels and the signal codes, as the comments of the source name them.\<close>

abbreviation (input) NoTrend :: int where "NoTrend \<equiv> 0"
abbreviation (input) StrongDowntrend :: int where "StrongDowntrend \<equiv> 1"
abbreviation (input) StrongUptrend :: int where "StrongUptrend \<equiv> 2"
abbreviation (input) Ambiguous :: int where "Ambiguous \<equiv> 3"

abbreviation (input) NoSignal :: int where "NoSignal \<equiv> 0"
abbreviation (input) Sell :: int where "Sell \<equiv> 1"
abbreviation (input) Buy :: int where "Buy \<equiv> 2"

text \<open>
  \<open>range(a, b)\<close> of Python, and the two kinds of indexing the source uses.

  \<open>df.High[i]\<close> indexes a pandas column by label. \<open>load_and_preprocess_data\<close> resets
  the index, so the labels are \<open>0 .. len(df)-1\<close>, and a label outside them (a negative
  one too: there is no counting from the end for labels) raises \<open>KeyError\<close>.

  \<open>emasignal[row] = v\<close> assigns into a Python list: a negative index counts from the
  end, and an index outside the list raises \<open>IndexError\<close>.
\<close>

definition py_range :: "int \<Rightarrow> int \<Rightarrow> int list" where
  "py_range a b = [a..b - 1]"

definition df_at :: "'r list \<Rightarrow> ('r \<Rightarrow> 'a) \<Rightarrow> int \<Rightarrow> error + 'a" where
  "df_at df col i =
     (if 0 \<le> i \<and> i < int (length df) then Inr (col (df ! nat i)) else Inl (KeyError i))"

definition list_set :: "'a list \<Rightarrow> int \<Rightarrow> 'a \<Rightarrow> error + 'a list" where
  "list_set xs i v =
     (let n = int (length xs); j = (if i < 0 then n + i else i)
      in if 0 \<le> j \<and> j < n then Inr (xs[nat j := v]) else Inl (IndexError i))"

section \<open>The trend classifier: \<open>generate_ema_signal\<close>\<close>

text \<open>
  The body of the inner loop at index \<open>i\<close>, on the flags \<open>upt\<close> and \<open>dnt\<close>
  (\<open>upt_flag\<close> and \<open>dnt_flag\<close> here): the four column reads in the order of the source,
  each of which may raise.
\<close>

definition ema_check :: "bar list \<Rightarrow> int \<Rightarrow> int \<times> int \<Rightarrow> error + int \<times> int" where
  "ema_check df i flags =
     (case df_at df High i of Inl e \<Rightarrow> Inl e | Inr h \<Rightarrow>
     (case df_at df EMA i of Inl e \<Rightarrow> Inl e | Inr m \<Rightarrow>
     (let dnt_flag = (if py_ge h m then 0 else snd flags) in
     (case df_at df Low i of Inl e \<Rightarrow> Inl e | Inr l \<Rightarrow>
     (case df_at df EMA i of Inl e \<Rightarrow> Inl e | Inr m' \<Rightarrow>
     (let upt_flag = (if py_le l m' then 0 else fst flags) in
      Inr (upt_flag, dnt_flag)))))))"

text \<open>The inner loop \<open>for i in range(row-backcandles, row+1)\<close>.\<close>

fun ema_scan :: "bar list \<Rightarrow> int list \<Rightarrow> int \<times> int \<Rightarrow> error + int \<times> int" where
  "ema_scan df [] flags = Inr flags"
| "ema_scan df (i # is) flags =
     (case ema_check df i flags of Inl e \<Rightarrow> Inl e | Inr flags' \<Rightarrow> ema_scan df is flags')"

text \<open>
  The body of the outer loop at \<open>row\<close>: both flags start at 1, the window is scanned,
  and \<open>emasignal[row]\<close> is assigned 3, 2 or 1, or left as it is.
\<close>

definition ema_row :: "bar list \<Rightarrow> int \<Rightarrow> int list \<Rightarrow> int \<Rightarrow> error + int list" where
  "ema_row df backcandles emasignal row =
     (case ema_scan df (py_range (row - backcandles) (row + 1)) (1, 1) of
        Inl e \<Rightarrow> Inl e
      | Inr (upt_flag, dnt_flag) \<Rightarrow>
          if upt_flag = 1 \<and> dnt_flag = 1 then list_set emasignal row Ambiguous
          else if upt_flag = 1 then list_set emasignal row StrongUptrend
          else if dnt_flag = 1 then list_set emasignal row StrongDowntrend
          else Inr emasignal)"

text \<open>The outer loop \<open>for row in range(backcandles-1, len(df))\<close>.\<close>

fun ema_rows :: "bar list \<Rightarrow> int \<Rightarrow> int list \<Rightarrow> int list \<Rightarrow> error + int list" where
  "ema_rows df backcandles [] emasignal = Inr emasignal"
| "ema_rows df backcandles (row # rows) emasignal =
     (case ema_row df backcandles emasignal row of
        Inl e \<Rightarrow> Inl e
      | Inr emasignal' \<Rightarrow> ema_rows df backcandles rows emasignal')"

definition generate_ema_signal :: "bar list \<Rightarrow> int \<Rightarrow> error + sigbar list" where
  "generate_ema_signal df backcandles =
     (case ema_rows df backcandles (py_range (backcandles - 1) (int (length df)))
             (replicate (length df) 0) of
        Inl e \<Rightarrow> Inl e
      | Inr emasignal \<Rightarrow> Inr (map2 with_EMAsignal df emasignal))"

section \<open>The signal combiner: \<open>generate_total_signal\<close>\<close>

text \<open>
  The body of the loop at one row: \<open>TotSignal[row]\<close> is set to 0 and then overwritten by
  the two \<open>if\<close> statements in turn. \<open>and\<close> evaluates its right operand only when the
  left one holds; both operands are pure here.
\<close>

definition tot_row :: "sigbar \<Rightarrow> real \<Rightarrow> real \<Rightarrow> int" where
  "tot_row r rsi_oversold rsi_overbought =
     (let t0 = NoSignal;
          t1 = (if EMAsignal r = 1 \<and> py_ge (RSI r) (Num rsi_overbought) then Sell else t0);
          t2 = (if EMAsignal r = 2 \<and> py_le (RSI r) (Num rsi_oversold) then Buy else t1)
      in t2)"

text \<open>\<open>df.dropna()\<close> removes every row that has an undefined value in some column.\<close>

definition isna :: "pyfloat \<Rightarrow> bool" where
  "isna x = (x = NaN)"

definition row_has_na :: "'a bar_scheme \<Rightarrow> bool" where
  "row_has_na r =
     (isna (Open r) \<or> isna (High r) \<or> isna (Low r) \<or> isna (Close r) \<or> isna (Volume r) \<or>
      isna (EMA r) \<or> isna (RSI r) \<or> isna (ATR r))"

definition dropna :: "'a bar_scheme list \<Rightarrow> 'a bar_scheme list" where
  "dropna df = filter (\<lambda>r. \<not> row_has_na r) df"

text \<open>
  The loop runs over \<open>range(0, len(df))\<close>, so every label it reads exists and no read
  raises: it computes one signal per row. The rows with an undefined value are removed
  afterwards, and \<open>reset_index(drop=True)\<close> renumbers the rows that are left (their
  positions in the list).
\<close>

definition generate_total_signal :: "sigbar list \<Rightarrow> real \<Rightarrow> real \<Rightarrow> totbar list" where
  "generate_total_signal df rsi_oversold rsi_overbought =
     dropna (map (\<lambda>r. with_TotSignal r (tot_row r rsi_oversold rsi_overbought)) df)"

text \<open>Steps 3 and 4 of \<open>main\<close>.\<close>

definition signal_pipeline :: "bar list \<Rightarrow> int \<Rightarrow> real \<Rightarrow> real \<Rightarrow> error + totbar list" where
  "signal_pipeline df backcandles rsi_oversold rsi_overbought =
     (case generate_ema_signal df backcandles of
        Inl e \<Rightarrow> Inl e
      | Inr df' \<Rightarrow> Inr (generate_total_signal df' rsi_oversold rsi_overbought))"

text \<open>The price and indicator columns of a row, without the signal columns.\<close>

definition bar_of :: "'a bar_scheme \<Rightarrow> bar" where
  "bar_of r = \<lparr>Open = Open r, High = High r, Low = Low r, Close = Close r, Volume = Volume r,
      EMA = EMA r, RSI = RSI r, ATR = ATR r\<rparr>"

text \<open>A row of the output without its \<open>TotSignal\<close> column.\<close>

definition sigbar_of :: "totbar \<Rightarrow> sigbar" where
  "sigbar_of r =
     \<lparr>Open = Open r, High = High r, Low = Low r, Close = Close r, Volume = Volume r,
      EMA = EMA r, RSI = RSI r, ATR = ATR r, EMAsignal = EMAsignal r\<rparr>"

section \<open>The policy engine\<close>

text \<open>
  The three strategies run inside the back-testing library, which owns the trades and
  executes the orders. What a strategy reads from it and the calls it makes are modelled;
  the library's own processing between two bars is a parameter of the replay.

  Prices and sizes are Python floats. The strategies add and multiply them, compare
  them and take \<open>max\<close> and \<open>min\<close>; they are modelled as real numbers, rounding left
  out.

  An open trade, as the strategies see it: its direction and its stop, \<open>trade.sl\<close>,
  which is \<open>None\<close> when the trade has no stop.
\<close>

record trade =
  is_long :: bool
  sl :: "real option"

text \<open>
  The calls a strategy makes: \<open>self.buy(sl, tp, size)\<close>, \<open>self.sell(sl, tp, size)\<close>,
  the assignment \<open>trade.sl = price\<close> and \<open>trade.close()\<close>, the last two on the trade at
  a position of \<open>self.trades\<close>.
\<close>

datatype call =
    OpenLong real "real option" real
  | OpenShort real "real option" real
  | SetStop nat real
  | CloseTrade nat

text \<open>
  What the library holds: \<open>self.trades\<close>, the profit or loss \<open>pl\<close> of each of
  \<open>self.closed_trades\<close> (oldest first), and the orders placed and not yet executed (an
  order placed on one bar is executed on the next).
\<close>

record broker =
  trades :: "trade list"
  closed_pl :: "real list"
  orders :: "call list"

text \<open>The strategy object: its attribute \<open>mysize\<close> and the library state it reads.\<close>

record strategy =
  mysize :: real
  brk :: broker

text \<open>
  What one bar brings: the current value of the signal (\<open>self.signal1\<close> is the signal
  series up to the current bar, and comparing it or taking its truth value reads its
  last element), \<open>self.data.Close[-1]\<close>, \<open>self.data.ATR[-1]\<close>, and which calls the
  library refuses on this bar by raising.
\<close>

record tick =
  signal1 :: int
  data_Close :: real
  data_ATR :: real
  rejects :: "call \<Rightarrow> bool"

definition initsize :: real where
  "initsize = 0.2"

text \<open>
  A call that the library refuses raises: the exception leaves \<open>next\<close> at once, with
  the strategy as it is at that point. A handler returns the strategy and the exception,
  if any.
\<close>

definition place :: "tick \<Rightarrow> call \<Rightarrow> strategy \<Rightarrow> strategy \<times> error option" where
  "place t c s =
     (if rejects t c then (s, Some OrderRejected)
      else (s\<lparr>brk := (brk s)\<lparr>orders := orders (brk s) @ [c]\<rparr>\<rparr>, None))"

definition buy :: "tick \<Rightarrow> real \<Rightarrow> real option \<Rightarrow> real \<Rightarrow> strategy \<Rightarrow> strategy \<times> error option" where
  "buy t stop tp sz s = place t (OpenLong stop tp sz) s"

definition sell :: "tick \<Rightarrow> real \<Rightarrow> real option \<Rightarrow> real \<Rightarrow> strategy \<Rightarrow> strategy \<times> error option" where
  "sell t stop tp sz s = place t (OpenShort stop tp sz) s"

definition set_sl :: "tick \<Rightarrow> nat \<Rightarrow> real \<Rightarrow> strategy \<Rightarrow> strategy \<times> error option" where
  "set_sl t k price s =
     (if rejects t (SetStop k price) then (s, Some OrderRejected)
      else (s\<lparr>brk := (brk s)\<lparr>trades :=
              (trades (brk s))[k := (trades (brk s) ! k)\<lparr>sl := Some price\<rparr>]\<rparr>\<rparr>, None))"

definition close_trade :: "tick \<Rightarrow> nat \<Rightarrow> strategy \<Rightarrow> strategy \<times> error option" where
  "close_trade t k s = place t (CloseTrade k) s"

subsection \<open>Strategy 1: fixed stop and target, size doubled after a loss\<close>

text \<open>
  The first statement of \<open>Strategy1_FixedSLTP.next\<close>. \<open>and\<close> evaluates
  \<open>self.closed_trades[-1]\<close> only when there is a closed trade.
\<close>

definition resize :: "tick \<Rightarrow> strategy \<Rightarrow> strategy" where
  "resize t s =
     (if signal1 t > 0 \<and> length (trades (brk s)) = 0 \<and>
         length (closed_pl (brk s)) > 0 \<and> last (closed_pl (brk s)) < 0
      then s\<lparr>mysize := mysize s * 2\<rparr>
      else if length (closed_pl (brk s)) > 0 \<and> last (closed_pl (brk s)) > 0
      then s\<lparr>mysize := initsize\<rparr>
      else s)"

definition Strategy1_next :: "tick \<Rightarrow> strategy \<Rightarrow> strategy \<times> error option" where
  "Strategy1_next t s0 =
     (let s = resize t s0 in
      if signal1 t = 2 \<and> length (trades (brk s)) = 0 then
        (let sl1 = data_Close t - 45 / 10000; tp1 = data_Close t + 45 / 10000
         in buy t sl1 (Some tp1) (mysize s) s)
      else if signal1 t = 1 \<and> length (trades (brk s)) = 0 then
        (let sl1 = data_Close t + 45 / 10000; tp1 = data_Close t - 45 / 10000
         in sell t sl1 (Some tp1) (mysize s) s)
      else (s, None))"

subsection \<open>Strategy 2: stop and target from the volatility\<close>

definition Strategy2_next :: "tick \<Rightarrow> strategy \<Rightarrow> strategy \<times> error option" where
  "Strategy2_next t s =
     (let slatr = 1.3 * data_ATR t; TPSLRatio = 1.3 in
      if signal1 t = 2 \<and> length (trades (brk s)) = 0 then
        (let sl1 = data_Close t - slatr; tp1 = data_Close t + slatr * TPSLRatio
         in buy t sl1 (Some tp1) (mysize s) s)
      else if signal1 t = 1 \<and> length (trades (brk s)) = 0 then
        (let sl1 = data_Close t + slatr; tp1 = data_Close t - slatr * TPSLRatio
         in sell t sl1 (Some tp1) (mysize s) s)
      else (s, None))"

subsection \<open>Strategy 3: trailing stop\<close>

text \<open>
  \<open>max(trade.sl or -np.inf, x)\<close> and \<open>min(trade.sl or np.inf, x)\<close>. The operand
  \<open>trade.sl or -np.inf\<close> is \<open>-np.inf\<close> when \<open>trade.sl\<close> is \<open>None\<close> or \<open>0.0\<close> (both
  count as false), and then the maximum is \<open>x\<close>; otherwise it is the stop.
\<close>

definition trail_long :: "real option \<Rightarrow> real \<Rightarrow> real" where
  "trail_long existing x =
     (case existing of None \<Rightarrow> x | Some stop \<Rightarrow> if stop = 0 then x else max stop x)"

definition trail_short :: "real option \<Rightarrow> real \<Rightarrow> real" where
  "trail_short existing x =
     (case existing of None \<Rightarrow> x | Some stop \<Rightarrow> if stop = 0 then x else min stop x)"

text \<open>The body of \<open>for trade in self.trades\<close>, on the trade at position \<open>k\<close>.\<close>

definition manage_trade :: "tick \<Rightarrow> real \<Rightarrow> nat \<Rightarrow> strategy \<Rightarrow> strategy \<times> error option" where
  "manage_trade t sltr k s =
     (let trade = trades (brk s) ! k in
      if is_long trade then
        (case set_sl t k (trail_long (sl trade) (data_Close t - sltr)) s of
           (s', Some e) \<Rightarrow> (s', Some e)
         | (s', None) \<Rightarrow> if signal1 t = 1 then close_trade t k s' else (s', None))
      else
        (case set_sl t k (trail_short (sl trade) (data_Close t + sltr)) s of
           (s', Some e) \<Rightarrow> (s', Some e)
         | (s', None) \<Rightarrow> if signal1 t = 2 then close_trade t k s' else (s', None)))"

fun manage_trades :: "tick \<Rightarrow> real \<Rightarrow> nat list \<Rightarrow> strategy \<Rightarrow> strategy \<times> error option" where
  "manage_trades t sltr [] s = (s, None)"
| "manage_trades t sltr (k # ks) s =
     (case manage_trade t sltr k s of
        (s', Some e) \<Rightarrow> (s', Some e)
      | (s', None) \<Rightarrow> manage_trades t sltr ks s')"

definition Strategy3_next :: "tick \<Rightarrow> strategy \<Rightarrow> strategy \<times> error option" where
  "Strategy3_next t s0 =
     (let sltr = 1.5 * data_ATR t in
      case manage_trades t sltr [0..<length (trades (brk s0))] s0 of
        (s, Some e) \<Rightarrow> (s, Some e)
      | (s, None) \<Rightarrow>
          if signal1 t = 2 \<and> length (trades (brk s)) = 0 then
            (let sl1 = data_Close t - sltr in buy t sl1 None (mysize s) s)
          else if signal1 t = 1 \<and> length (trades (brk s)) = 0 then
            (let sl1 = data_Close t + sltr in sell t sl1 None (mysize s) s)
          else (s, None))"

subsection \<open>The replay\<close>

text \<open>
  The library's loop over the bars: on each bar it first does its own processing
  (\<open>adv\<close>: it executes the pending orders and closes the trades whose stop or target was
  touched), then calls the strategy's \<open>next\<close>. An exception raised in \<open>next\<close> ends the
  run. The result lists the strategy as it is after each bar.
\<close>

fun replay :: "(tick \<Rightarrow> broker \<Rightarrow> broker) \<Rightarrow> (tick \<Rightarrow> strategy \<Rightarrow> strategy \<times> error option) \<Rightarrow>
    tick list \<Rightarrow> strategy \<Rightarrow> strategy list" where
  "replay adv nxt [] s = []"
| "replay adv nxt (t # ts) s =
     (case nxt t (s\<lparr>brk := adv t (brk s)\<rparr>) of
        (s', Some e) \<Rightarrow> [s']
      | (s', None) \<Rightarrow> s' # replay adv nxt ts s')"

text \<open>
  What is assumed of the library's processing, where a fact depends on it. It executes
  or cancels every pending order, and opens a trade only by executing an order that
  opens one.
\<close>

fun is_entry :: "call \<Rightarrow> bool" where
  "is_entry (OpenLong stop tp sz) = True"
| "is_entry (OpenShort stop tp sz) = True"
| "is_entry (SetStop k price) = False"
| "is_entry (CloseTrade k) = False"

definition fills_only_orders :: "(tick \<Rightarrow> broker \<Rightarrow> broker) \<Rightarrow> bool" where
  "fills_only_orders adv =
     (\<forall>t b. orders (adv t b) = [] \<and>
        length (trades (adv t b)) \<le> length (trades b) + length (filter is_entry (orders b)))"

text \<open>It leaves the open trades as they are: the bars of one trade's lifetime.\<close>

definition keeps_trades :: "(tick \<Rightarrow> broker \<Rightarrow> broker) \<Rightarrow> bool" where
  "keeps_trades adv = (\<forall>t b. trades (adv t b) = trades b)"

text \<open>
  What each of the three \<open>next\<close> handlers is shown to respect: it leaves the number of
  open trades as it is, and adds at most one order that opens a trade, and none while a
  trade is open.
\<close>

definition polite :: "(tick \<Rightarrow> strategy \<Rightarrow> strategy \<times> error option) \<Rightarrow> bool" where
  "polite nxt = (\<forall>t s. length (trades (brk (fst (nxt t s)))) = length (trades (brk s)) \<and>
     length (filter is_entry (orders (brk (fst (nxt t s))))) \<le>
       length (filter is_entry (orders (brk s))) + (if trades (brk s) = [] then 1 else 0))"

section \<open>Example series, bars and brokers\<close>

text \<open>
  A bar with the given high, low, reference average and momentum value, for the concrete
  series the evaluations below run on.
\<close>

definition example_bar :: "real \<Rightarrow> real \<Rightarrow> pyfloat \<Rightarrow> pyfloat \<Rightarrow> bar" where
  "example_bar h l m r =
     \<lparr>Open = Num l, High = Num h, Low = Num l, Close = Num h, Volume = Num 1,
      EMA = m, RSI = r, ATR = Num 1\<rparr>"

text \<open>A bar on which the library accepts every call, and one on which it refuses all.\<close>

definition no_reject :: "call \<Rightarrow> bool" where
  "no_reject c = False"

definition reject_all :: "call \<Rightarrow> bool" where
  "reject_all c = True"

fun reject_close :: "call \<Rightarrow> bool" where
  "reject_close (CloseTrade k) = True"
| "reject_close (OpenLong stop tp sz) = False"
| "reject_close (OpenShort stop tp sz) = False"
| "reject_close (SetStop k price) = False"

definition example_tick :: "int \<Rightarrow> real \<Rightarrow> real \<Rightarrow> tick" where
  "example_tick sg c a = \<lparr>signal1 = sg, data_Close = c, data_ATR = a, rejects = no_reject\<rparr>"

text \<open>The strategy at the start of a run.\<close>

definition fresh :: strategy where
  "fresh = \<lparr>mysize = initsize, brk = \<lparr>trades = [], closed_pl = [], orders = []\<rparr>\<rparr>"

text \<open>The trade an executed order opens.\<close>

fun trade_of :: "call \<Rightarrow> trade list" where
  "trade_of (OpenLong stop tp sz) = [\<lparr>is_long = True, sl = Some stop\<rparr>]"
| "trade_of (OpenShort stop tp sz) = [\<lparr>is_long = False, sl = Some stop\<rparr>]"
| "trade_of (SetStop k price) = []"
| "trade_of (CloseTrade k) = []"

text \<open>
  Three markets: one that executes every order and closes no trade; one that executes
  every order and closes each open trade on the next bar at a loss of 1; one that
  cancels every order and closes no trade.
\<close>

definition fill_all :: "tick \<Rightarrow> broker \<Rightarrow> broker" where
  "fill_all t b = b\<lparr>trades := trades b @ concat (map trade_of (orders b)), orders := []\<rparr>"

definition losing_market :: "tick \<Rightarrow> broker \<Rightarrow> broker" where
  "losing_market t b =
     \<lparr>trades = concat (map trade_of (orders b)),
      closed_pl = closed_pl b @ map (\<lambda>tr. - 1) (trades b),
      orders = []\<rparr>"

definition hold :: "tick \<Rightarrow> broker \<Rightarrow> broker" where
  "hold t b = b\<lparr>orders := []\<rparr>"

text \<open>
  The claim's \<open>k\<close>: the number of consecutive losing trades at the end of the closed
  trades.
\<close>

definition losing_run :: "real list \<Rightarrow> nat" where
  "losing_run pls = length (takeWhile (\<lambda>p. p < 0) (rev pls))"

section \<open>Facts about the trend classifier\<close>

lemma df_at_in [simp]: "0 \<le> i \<Longrightarrow> i < int (length df) \<Longrightarrow> df_at df col i = Inr (col (df ! nat i))"
  by (simp add: df_at_def)

lemma df_at_neg [simp]: "i < 0 \<Longrightarrow> df_at df col i = Inl (KeyError i)"
  by (simp add: df_at_def)

lemma ema_check_in:
  "0 \<le> i \<Longrightarrow> i < int (length df) \<Longrightarrow>
   ema_check df i flags =
     Inr (if py_le (Low (df ! nat i)) (EMA (df ! nat i)) then 0 else fst flags,
          if py_ge (High (df ! nat i)) (EMA (df ! nat i)) then 0 else snd flags)"
  by (simp add: ema_check_def)

lemma ema_scan_in:
  "\<forall>i \<in> set is. 0 \<le> i \<and> i < int (length df) \<Longrightarrow>
   ema_scan df is flags =
     Inr (if \<exists>i \<in> set is. py_le (Low (df ! nat i)) (EMA (df ! nat i)) then 0 else fst flags,
          if \<exists>i \<in> set is. py_ge (High (df ! nat i)) (EMA (df ! nat i)) then 0 else snd flags)"
proof (induction "is" arbitrary: flags)
  case Nil
  then show ?case by simp
next
  case (Cons i "is")
  then show ?case by (simp add: ema_check_in)
qed

lemma py_range_set: "set (py_range a b) = {a..b - 1}"
  by (simp add: py_range_def)

lemma generate_ema_signal_raises:
  assumes "0 \<le> bc" "bc \<le> int (length df)"
  shows "generate_ema_signal df bc = Inl (KeyError (- 1))"
proof -
  have rows: "py_range (bc - 1) (int (length df)) = (bc - 1) # py_range bc (int (length df))"
    using assms by (simp add: py_range_def upto_rec1)
  have win: "py_range (- 1) bc = (- 1) # py_range 0 bc"
    using assms by (simp add: py_range_def upto_rec1)
  have "ema_check df (- 1) (1, 1) = Inl (KeyError (- 1))"
    by (simp add: ema_check_def)
  then have "ema_row df bc (replicate (length df) 0) (bc - 1) = Inl (KeyError (- 1))"
    by (simp add: ema_row_def win)
  then show ?thesis
    by (simp add: generate_ema_signal_def rows)
qed

lemma list_set_nonneg:
  "0 \<le> i \<Longrightarrow> list_set xs i v = Inr ys \<Longrightarrow> ys = xs[nat i := v]"
  by (auto simp: list_set_def Let_def split: if_splits)

lemma list_set_length: "list_set xs i v = Inr ys \<Longrightarrow> length ys = length xs"
  by (auto simp: list_set_def Let_def split: if_splits)

lemma ema_row_frame:
  assumes "ema_row df bc sig row = Inr sig'" "0 \<le> row"
  shows "length sig' = length sig \<and> (\<forall>j. j \<noteq> nat row \<longrightarrow> sig' ! j = sig ! j)"
  using assms
  by (auto simp: ema_row_def split: sum.splits prod.splits if_splits dest!: list_set_nonneg)

lemma ema_row_length: "ema_row df bc sg row = Inr sg' \<Longrightarrow> length sg' = length sg"
  by (auto simp: ema_row_def split: sum.splits prod.splits if_splits dest: list_set_length)

lemma ema_rows_frame:
  "ema_rows df bc rows sig = Inr sig' \<Longrightarrow> \<forall>r \<in> set rows. i < r \<Longrightarrow> 0 \<le> i \<Longrightarrow>
   length sig' = length sig \<and> sig' ! nat i = sig ! nat i"
proof (induction rows arbitrary: sig)
  case Nil
  then show ?case by simp
next
  case (Cons row rows)
  from Cons.prems(1) obtain s1 where s1: "ema_row df bc sig row = Inr s1"
    and rest: "ema_rows df bc rows s1 = Inr sig'"
    by (auto split: sum.splits)
  from Cons.prems have "0 \<le> row" "nat i \<noteq> nat row" by auto
  with ema_row_frame[OF s1] have "length s1 = length sig" "s1 ! nat i = sig ! nat i" by auto
  moreover from Cons.IH[OF rest] Cons.prems have "length sig' = length s1 \<and> sig' ! nat i = s1 ! nat i" by simp
  ultimately show ?case by simp
qed

lemma ema_rows_length: "ema_rows df bc rows sg = Inr sg' \<Longrightarrow> length sg' = length sg"
proof (induction rows arbitrary: sg)
  case Nil
  then show ?case by simp
next
  case (Cons row rows)
  then show ?case
    by (auto split: sum.splits dest!: ema_row_length)
qed

lemma length_generate_ema_signal:
  assumes "generate_ema_signal df bc = Inr df'" "i < length df" "\<forall>r \<in> set (py_range (bc - 1) (int (length df))). int i < r"
  shows "length df' = length df \<and> EMAsignal (df' ! i) = 0"
proof -
  from assms(1) obtain sg where sg: "ema_rows df bc (py_range (bc - 1) (int (length df))) (replicate (length df) 0) = Inr sg"
    and df': "df' = map2 with_EMAsignal df sg"
    by (auto simp: generate_ema_signal_def split: sum.splits)
  from ema_rows_frame[OF sg assms(3)] assms(2)
  have "length sg = length df" "sg ! i = 0" by auto
  with df' assms(2) show ?thesis by (simp add: with_EMAsignal_def)
qed

lemma bar_of_with_EMAsignal [simp]: "bar_of (with_EMAsignal b s) = b"
  by (simp add: bar_of_def with_EMAsignal_def)

lemma generate_ema_signal_rows:
  assumes "generate_ema_signal df bc = Inr df'"
  shows "map bar_of df' = df"
proof -
  from assms obtain sg where sg: "ema_rows df bc (py_range (bc - 1) (int (length df))) (replicate (length df) 0) = Inr sg"
    and df': "df' = map2 with_EMAsignal df sg"
    by (auto simp: generate_ema_signal_def split: sum.splits)
  from ema_rows_length[OF sg] have len: "length sg = length df" by simp
  show ?thesis
    unfolding df' using len
    by (induction df sg rule: list_induct2') auto
qed

text \<open>
  C1. The window of a row is \<open>range(row-backcandles, row+1)\<close>: the indices
  \<open>row-backcandles\<close> to \<open>row\<close>, that is \<open>backcandles+1\<close> of them. The claim says
  every one of them is an existing bar for every row from \<open>backcandles-1\<close> on. At the
  first row of the loop, \<open>backcandles-1\<close>, the window starts at index \<open>-1\<close>, which is
  no label of the series: the read raises \<open>KeyError\<close> and ends \<open>generate_ema_signal\<close>.
  Here on a series of 8 bars with the default \<open>backcandles = 8\<close>: the loop runs over
  row 7 alone, its window is \<open>-1 .. 7\<close>, and the read of \<open>df.High[-1]\<close> fails.
  (\<open>generate_ema_signal_raises\<close> above: so it is for every series with at least
  \<open>backcandles\<close> rows.)
\<close>

theorem first_window_out_of_bounds:
  "py_range (8 - 1) (int (length (replicate 8 (example_bar 5 4 (Num 3) (Num 50))))) = [7] \<and>
   py_range (7 - 8) (7 + 1) = [- 1, 0, 1, 2, 3, 4, 5, 6, 7] \<and>
   df_at (replicate 8 (example_bar 5 4 (Num 3) (Num 50))) High (- 1) = Inl (KeyError (- 1)) \<and>
   generate_ema_signal (replicate 8 (example_bar 5 4 (Num 3) (Num 50))) 8 = Inl (KeyError (- 1))"
proof -
  have "generate_ema_signal (replicate 8 (example_bar 5 4 (Num 3) (Num 50))) 8 = Inl (KeyError (- 1))"
    by (rule generate_ema_signal_raises) simp_all
  moreover have "[- 1..7::int] = [- 1, 0, 1, 2, 3, 4, 5, 6, 7]"
    by (simp add: upto_rec1)
  ultimately show ?thesis
    by (simp add: py_range_def df_at_def)
qed

text \<open>
  The body of the row loop on a row whose whole window lies inside the series
  (\<open>backcandles \<le> row\<close>) and whose label still has its initial value: it assigns the
  label from the two flags, Ambiguous (3) when both survive the scan, StrongUptrend (2)
  when only the uptrend flag does, StrongDowntrend (1) when only the downtrend flag does,
  and leaves NoTrend (0) otherwise. The uptrend flag survives exactly when no bar of the
  window has its low at or below the reference line, the downtrend flag exactly when no
  bar of the window has its high at or above it.
\<close>

lemma trend_label_of_window:
  assumes "0 \<le> backcandles" "backcandles \<le> row" "row < int (length df)"
    and "length emasignal = length df" "emasignal ! nat row = NoTrend"
  shows "ema_row df backcandles emasignal row =
     Inr (emasignal[nat row :=
       (let up = \<not> (\<exists>i \<in> {row - backcandles..row}. py_le (Low (df ! nat i)) (EMA (df ! nat i)));
            down = \<not> (\<exists>i \<in> {row - backcandles..row}. py_ge (High (df ! nat i)) (EMA (df ! nat i)))
        in if up \<and> down then Ambiguous else if up then StrongUptrend
           else if down then StrongDowntrend else NoTrend)])"
proof -
  have inb: "\<forall>i \<in> set (py_range (row - backcandles) (row + 1)). 0 \<le> i \<and> i < int (length df)"
    using assms by (auto simp: py_range_set)
  have row: "nat row < length emasignal" "0 \<le> row" "row < int (length emasignal)"
    using assms by auto
  have same: "emasignal[nat row := 0] = emasignal"
    using row(1) assms(5) by (simp add: list_update_same_conv)
  show ?thesis
    using row same
    by (simp add: ema_row_def ema_scan_in[OF inb] py_range_set list_set_def Let_def)
qed

lemma trend_label_of_window_example:
  "ema_row [example_bar 5 4 (Num 3) (Num 50), example_bar 6 5 (Num 3) (Num 50),
            example_bar 7 6 (Num 3) (Num 50)] 1 [0, 0, 0] 1 = Inr [0, StrongUptrend, 0]"
proof -
  have set01: "{0..1::int} = {0, 1}" by auto
  show ?thesis
    using trend_label_of_window[of 1 1 "[example_bar 5 4 (Num 3) (Num 50),
      example_bar 6 5 (Num 3) (Num 50), example_bar 7 6 (Num 3) (Num 50)]" "[0, 0, 0]"]
    by (simp add: example_bar_def set01)
qed

text \<open>
  C4. The claim says that every bar with sufficient history gets its label from the two
  flags. The loop never gets that far. On 9 bars of a clean uptrend (every low above the
  reference line) with \<open>backcandles = 8\<close>, the rows with sufficient history are 7 and 8.
  Row 7, the first the loop visits, has the window \<open>-1 .. 7\<close>: the read of \<open>df.High[-1]\<close>
  raises and \<open>generate_ema_signal\<close> ends without a label for any row (the defect of C1).
  The body of the loop, were it to reach row 8, would assign StrongUptrend there, as the
  claim says.
\<close>

theorem uptrend_rows_never_labelled:
  "py_range (8 - 1) (int (length (replicate 9 (example_bar 5 4 (Num 3) (Num 50))))) = [7, 8] \<and>
   ema_row (replicate 9 (example_bar 5 4 (Num 3) (Num 50))) 8 (replicate 9 0) 7 =
     Inl (KeyError (- 1)) \<and>
   ema_row (replicate 9 (example_bar 5 4 (Num 3) (Num 50))) 8 (replicate 9 0) 8 =
     Inr ((replicate 9 0)[8 := StrongUptrend]) \<and>
   generate_ema_signal (replicate 9 (example_bar 5 4 (Num 3) (Num 50))) 8 = Inl (KeyError (- 1))"
proof -
  let ?df = "replicate 9 (example_bar 5 4 (Num 3) (Num 50))"
  have rows: "py_range (8 - 1) (int (length ?df)) = [7, 8]"
    by (simp add: py_range_def upto_rec1)
  have win: "py_range (- 1) 8 = - 1 # py_range 0 8"
    by (simp add: py_range_def upto_rec1)
  have r7: "ema_row ?df 8 (replicate 9 0) 7 = Inl (KeyError (- 1))"
    by (simp add: ema_row_def ema_check_def win)
  have bars: "\<And>i. i \<in> {0..8::int} \<Longrightarrow> ?df ! nat i = example_bar 5 4 (Num 3) (Num 50)"
    by (auto simp: nat_less_iff)
  have up: "\<not> (\<exists>i \<in> {8 - 8..8::int}. py_le (Low (?df ! nat i)) (EMA (?df ! nat i)))"
    using bars by (simp add: example_bar_def)
  have down: "\<exists>i \<in> {8 - 8..8::int}. py_ge (High (?df ! nat i)) (EMA (?df ! nat i))"
    using bars[of 0] by (intro bexI[of _ 0]) (simp_all add: example_bar_def)
  have r8: "ema_row ?df 8 (replicate 9 0) 8 = Inr ((replicate 9 0)[8 := StrongUptrend])"
    using trend_label_of_window[of 8 8 ?df "replicate 9 0"] up down
    by (auto simp: Let_def)
  have g: "generate_ema_signal ?df 8 = Inl (KeyError (- 1))"
    by (rule generate_ema_signal_raises) simp_all
  from rows r7 r8 g show ?thesis by simp
qed

text \<open>
  When \<open>generate_ema_signal\<close> returns, every row \<open>i\<close> below \<open>backcandles-1\<close> carries
  the label NoTrend (0), and the signal combiner computes the signal None (0) for it:
  the row loop writes no row below its start.
\<close>

lemma warmup_no_trend:
  assumes "generate_ema_signal df backcandles = Inr df'"
    and "0 \<le> i" "i < backcandles - 1" "i < int (length df)"
  shows "length df' = length df \<and> EMAsignal (df' ! nat i) = NoTrend \<and>
         tot_row (df' ! nat i) rsi_oversold rsi_overbought = NoSignal"
proof -
  have "\<forall>r \<in> set (py_range (backcandles - 1) (int (length df))). int (nat i) < r"
    using assms by (auto simp: py_range_set)
  from length_generate_ema_signal[OF assms(1) _ this] assms
  have "length df' = length df \<and> EMAsignal (df' ! nat i) = 0" by simp
  then show ?thesis by (simp add: tot_row_def)
qed

lemma warmup_no_trend_example:
  "generate_ema_signal [example_bar 5 4 (Num 3) (Num 95), example_bar 6 5 NaN (Num 5)] 8 =
     Inr [with_EMAsignal (example_bar 5 4 (Num 3) (Num 95)) 0,
          with_EMAsignal (example_bar 6 5 NaN (Num 5)) 0] \<and>
   tot_row (with_EMAsignal (example_bar 6 5 NaN (Num 5)) 0) 10 90 = NoSignal"
proof -
  let ?df = "[example_bar 5 4 (Num 3) (Num 95), example_bar 6 5 NaN (Num 5)]"
  have run: "generate_ema_signal ?df 8 =
     Inr [with_EMAsignal (example_bar 5 4 (Num 3) (Num 95)) 0,
          with_EMAsignal (example_bar 6 5 NaN (Num 5)) 0]"
    by (simp add: generate_ema_signal_def py_range_def)
  from warmup_no_trend[OF run, of 1 10 90] run show ?thesis by simp
qed

text \<open>
  C9. The claim says that the rows below \<open>backcandles-1\<close> are labelled NoTrend and get
  the signal None. On 8 bars with \<open>backcandles = 8\<close> the rows 0 to 6 are such rows; the
  loop visits row 7 alone, the read at index \<open>-1\<close> of its window raises (the defect of
  C1), and neither \<open>generate_ema_signal\<close> nor the pipeline returns a label or a signal
  for any row. Only on a series with fewer than \<open>backcandles\<close> rows does the function
  return, and then with what the claim says (the lemma above).
\<close>

theorem warmup_rows_get_no_label:
  "py_range (8 - 1) (int (length (replicate 8 (example_bar 5 4 (Num 6) (Num 95))))) = [7] \<and>
   generate_ema_signal (replicate 8 (example_bar 5 4 (Num 6) (Num 95))) 8 = Inl (KeyError (- 1)) \<and>
   signal_pipeline (replicate 8 (example_bar 5 4 (Num 6) (Num 95))) 8 10 90 = Inl (KeyError (- 1))"
proof -
  have g: "generate_ema_signal (replicate 8 (example_bar 5 4 (Num 6) (Num 95))) 8 =
      Inl (KeyError (- 1))"
    by (rule generate_ema_signal_raises) simp_all
  then have "signal_pipeline (replicate 8 (example_bar 5 4 (Num 6) (Num 95))) 8 10 90 =
      Inl (KeyError (- 1))"
    by (simp add: signal_pipeline_def)
  with g show ?thesis by (simp add: py_range_def)
qed

text \<open>
  C10. The claim says that a row \<open>i \<ge> backcandles-1\<close> whose window has an undefined
  reference average on every bar is labelled Ambiguous. On 8 bars that all have an
  undefined reference average, with \<open>backcandles = 8\<close>, row \<open>7 = backcandles-1\<close> is not
  labelled: its window starts at index \<open>-1\<close>, the read raises, and no label is produced
  (the defect of C1). For the rows from \<open>backcandles\<close> on, the lemma after this one shows
  what the claim says.
\<close>

theorem all_nan_first_row_raises:
  "ema_row (replicate 8 (example_bar 5 4 NaN (Num 50))) 8 (replicate 8 0) (8 - 1) =
     Inl (KeyError (- 1)) \<and>
   generate_ema_signal (replicate 8 (example_bar 5 4 NaN (Num 50))) 8 = Inl (KeyError (- 1))"
proof -
  have "generate_ema_signal (replicate 8 (example_bar 5 4 NaN (Num 50))) 8 = Inl (KeyError (- 1))"
    by (rule generate_ema_signal_raises) simp_all
  moreover have "py_range (- 1) 8 = - 1 # py_range 0 8"
    by (simp add: py_range_def upto_rec1)
  then have "ema_row (replicate 8 (example_bar 5 4 NaN (Num 50))) 8 (replicate 8 0) (8 - 1) =
     Inl (KeyError (- 1))"
    by (simp add: ema_row_def ema_check_def)
  ultimately show ?thesis by simp
qed

text \<open>
  A row from \<open>backcandles\<close> on whose window has an undefined reference average on every
  bar: every comparison is false, both flags survive, the label is Ambiguous, and the
  signal computed from that label is None.
\<close>

lemma all_nan_window_ambiguous:
  assumes "0 \<le> backcandles" "backcandles \<le> row" "row < int (length df)"
    and "length emasignal = length df"
    and "\<forall>i \<in> {row - backcandles..row}. EMA (df ! nat i) = NaN"
  shows "ema_row df backcandles emasignal row = Inr (emasignal[nat row := Ambiguous]) \<and>
         tot_row (with_EMAsignal (df ! nat row) Ambiguous) rsi_oversold rsi_overbought = NoSignal"
proof -
  have inb: "\<forall>i \<in> set (py_range (row - backcandles) (row + 1)). 0 \<le> i \<and> i < int (length df)"
    using assms by (auto simp: py_range_set)
  have row: "0 \<le> row" "row < int (length emasignal)"
    using assms by auto
  show ?thesis
    using row assms(5)
    by (simp add: ema_row_def ema_scan_in[OF inb] py_range_set list_set_def Let_def
        tot_row_def with_EMAsignal_def)
qed

lemma all_nan_window_ambiguous_witness:
  "ema_row [example_bar 5 4 NaN NaN, example_bar 6 5 NaN NaN, example_bar 7 6 NaN NaN] 1
     [0, 0, 0] 1 = Inr [0, Ambiguous, 0]"
proof -
  have set01: "{0..1::int} = {0, 1}" by auto
  show ?thesis
    using all_nan_window_ambiguous[of 1 1 "[example_bar 5 4 NaN NaN, example_bar 6 5 NaN NaN,
      example_bar 7 6 NaN NaN]" "[0, 0, 0]"]
    by (simp add: example_bar_def set01)
qed

section \<open>Facts about the signal combiner\<close>

lemma tot_row_cases:
  "tot_row r os ob =
     (if EMAsignal r = 2 \<and> py_le (RSI r) (Num os) then 2
      else if EMAsignal r = 1 \<and> py_ge (RSI r) (Num ob) then 1 else 0)"
  by (simp add: tot_row_def)

lemma row_has_na_with_TotSignal [simp]: "row_has_na (with_TotSignal r t) = row_has_na r"
  by (simp add: row_has_na_def with_TotSignal_def)

lemma generate_total_signal_alt:
  "generate_total_signal df os ob = map (\<lambda>r. with_TotSignal r (tot_row r os ob)) (dropna df)"
  by (simp add: generate_total_signal_def dropna_def filter_map comp_def)

text \<open>
  C3. Every row that \<open>generate_total_signal\<close> retains has a defined momentum value
  \<open>v\<close>, and its signal is Sell (1) if and only if its trend label is StrongDowntrend and
  \<open>v \<ge> rsi_overbought\<close>, Buy (2) if and only if its trend label is StrongUptrend and
  \<open>v \<le> rsi_oversold\<close> (both bounds inclusive), and None (0) in every other case.
\<close>

theorem total_signal_iff:
  assumes "r \<in> set (generate_total_signal df rsi_oversold rsi_overbought)"
  shows "\<exists>v. RSI r = Num v \<and>
     (TotSignal r = Sell \<longleftrightarrow> EMAsignal r = StrongDowntrend \<and> rsi_overbought \<le> v) \<and>
     (TotSignal r = Buy \<longleftrightarrow> EMAsignal r = StrongUptrend \<and> v \<le> rsi_oversold) \<and>
     (TotSignal r = NoSignal \<longleftrightarrow>
        \<not> (EMAsignal r = StrongDowntrend \<and> rsi_overbought \<le> v) \<and>
        \<not> (EMAsignal r = StrongUptrend \<and> v \<le> rsi_oversold))"
proof -
  from assms obtain s where s: "s \<in> set df" "\<not> row_has_na s"
    and r: "r = with_TotSignal s (tot_row s rsi_oversold rsi_overbought)"
    by (auto simp: generate_total_signal_alt dropna_def)
  from s(2) obtain v where v: "RSI s = Num v"
    by (cases "RSI s") (auto simp: row_has_na_def isna_def)
  show ?thesis
    using v by (auto simp: r with_TotSignal_def tot_row_cases)
qed

theorem total_signal_iff_witness:
  "generate_total_signal [with_EMAsignal (example_bar 5 4 (Num 3) (Num 10)) StrongUptrend] 10 90 =
     [with_TotSignal (with_EMAsignal (example_bar 5 4 (Num 3) (Num 10)) StrongUptrend) Buy]"
proof -
  let ?s = "with_EMAsignal (example_bar 5 4 (Num 3) (Num 10)) StrongUptrend"
  let ?r = "with_TotSignal ?s (tot_row ?s 10 90)"
  have out: "generate_total_signal [?s] 10 90 = [?r]"
    by (simp add: generate_total_signal_def dropna_def row_has_na_def isna_def
        with_TotSignal_def with_EMAsignal_def example_bar_def)
  then have "?r \<in> set (generate_total_signal [?s] 10 90)" by simp
  from total_signal_iff[OF this]
  have "TotSignal ?r = Buy"
    by (auto simp: with_TotSignal_def with_EMAsignal_def example_bar_def)
  then have "tot_row ?s 10 90 = 2" by (simp add: with_TotSignal_def)
  with out show ?thesis by simp
qed

text \<open>
  C7, as stated, fails. The rows with an undefined value are removed at the end of
  \<open>generate_total_signal\<close>, after both loops, not before the trend classifier runs.
  On a series of two bars, the first with undefined indicators, and \<open>backcandles = 2\<close>:
  the classifier sees both rows, so it processes row 1 (and fails on its window); had
  the undefined row been excluded first, one row would be left, no row would be
  processed and the output would be that row with signal None.
\<close>

theorem na_rows_reach_classifier:
  "signal_pipeline [example_bar 5 4 NaN NaN, example_bar 6 5 (Num 3) (Num 50)] 2 10 90 =
     Inl (KeyError (- 1)) \<and>
   signal_pipeline (dropna [example_bar 5 4 NaN NaN, example_bar 6 5 (Num 3) (Num 50)]) 2 10 90 =
     Inr [with_TotSignal (with_EMAsignal (example_bar 6 5 (Num 3) (Num 50)) NoTrend) NoSignal]"
proof -
  have "generate_ema_signal [example_bar 5 4 NaN NaN, example_bar 6 5 (Num 3) (Num 50)] 2 =
     Inl (KeyError (- 1))"
    by (rule generate_ema_signal_raises) simp_all
  then have a: "signal_pipeline [example_bar 5 4 NaN NaN, example_bar 6 5 (Num 3) (Num 50)] 2 10 90 =
     Inl (KeyError (- 1))"
    by (simp add: signal_pipeline_def)
  have d: "dropna [example_bar 5 4 NaN NaN, example_bar 6 5 (Num 3) (Num 50)] =
     [example_bar 6 5 (Num 3) (Num 50)]"
    by (simp add: dropna_def row_has_na_def isna_def example_bar_def)
  have g: "generate_ema_signal [example_bar 6 5 (Num 3) (Num 50)] 2 =
     Inr [with_EMAsignal (example_bar 6 5 (Num 3) (Num 50)) 0]"
    by (simp add: generate_ema_signal_def py_range_def)
  have "row_has_na (with_EMAsignal (example_bar 6 5 (Num 3) (Num 50)) 0) = False"
    by (simp add: row_has_na_def isna_def example_bar_def with_EMAsignal_def)
  then have b: "signal_pipeline [example_bar 6 5 (Num 3) (Num 50)] 2 10 90 =
     Inr [with_TotSignal (with_EMAsignal (example_bar 6 5 (Num 3) (Num 50)) 0) 0]"
    by (simp add: signal_pipeline_def g generate_total_signal_alt dropna_def
        tot_row_cases with_EMAsignal_def)
  from a b d show ?thesis by simp
qed

lemma sigbar_of_with_TotSignal [simp]: "sigbar_of (with_TotSignal r t) = r"
  by (simp add: sigbar_of_def with_TotSignal_def)

lemma TotSignal_with_TotSignal [simp]: "TotSignal (with_TotSignal r t) = t"
  by (simp add: with_TotSignal_def)

text \<open>
  C7, amended. The rows with an undefined value are not excluded before the classifier:
  the pipeline applies the classifier to the whole series, its failure there is the
  pipeline's, and when it returns it has labelled every row of the series, the rows with
  an undefined value included. The rows with an undefined value in some column are
  removed by the last step of \<open>generate_total_signal\<close>: of any labelled series, the
  output is the rows without an undefined value, in their order and with their labels
  (dropped, not filled; renumbered by position), each carrying the signal computed from
  its own label and momentum value. So no row of the output has an undefined momentum
  value or reference average.
\<close>

theorem na_rows_dropped_last:
  "signal_pipeline df backcandles rsi_oversold rsi_overbought =
     (case generate_ema_signal df backcandles of
        Inl e \<Rightarrow> Inl e
      | Inr d' \<Rightarrow> Inr (map (\<lambda>r. with_TotSignal r (tot_row r rsi_oversold rsi_overbought))
                         (dropna d'))) \<and>
   (\<forall>d'. generate_ema_signal df backcandles = Inr d' \<longrightarrow> map bar_of d' = df) \<and>
   map sigbar_of (generate_total_signal d rsi_oversold rsi_overbought) = dropna d \<and>
   (\<forall>r \<in> set (generate_total_signal d rsi_oversold rsi_overbought).
      \<not> isna (RSI r) \<and> \<not> isna (EMA r) \<and> \<not> row_has_na r \<and>
      TotSignal r = tot_row (sigbar_of r) rsi_oversold rsi_overbought)"
proof -
  have a: "signal_pipeline df backcandles rsi_oversold rsi_overbought =
     (case generate_ema_signal df backcandles of
        Inl e \<Rightarrow> Inl e
      | Inr d' \<Rightarrow> Inr (map (\<lambda>r. with_TotSignal r (tot_row r rsi_oversold rsi_overbought))
                         (dropna d')))"
    by (simp add: signal_pipeline_def generate_total_signal_alt split: sum.splits)
  have b: "\<forall>d'. generate_ema_signal df backcandles = Inr d' \<longrightarrow> map bar_of d' = df"
    using generate_ema_signal_rows by blast
  have c: "map sigbar_of (generate_total_signal d rsi_oversold rsi_overbought) = dropna d"
    by (simp add: generate_total_signal_alt comp_def)
  have "\<forall>r \<in> set (generate_total_signal d rsi_oversold rsi_overbought). \<not> row_has_na r"
    by (auto simp: generate_total_signal_def dropna_def)
  moreover have "\<forall>r \<in> set (generate_total_signal d rsi_oversold rsi_overbought).
      TotSignal r = tot_row (sigbar_of r) rsi_oversold rsi_overbought"
    by (auto simp: generate_total_signal_alt)
  ultimately have e: "\<forall>r \<in> set (generate_total_signal d rsi_oversold rsi_overbought).
      \<not> isna (RSI r) \<and> \<not> isna (EMA r) \<and> \<not> row_has_na r \<and>
      TotSignal r = tot_row (sigbar_of r) rsi_oversold rsi_overbought"
    by (auto simp: row_has_na_def)
  from a b c e show ?thesis by blast
qed

theorem na_rows_dropped_last_witness:
  "generate_ema_signal [example_bar 5 4 NaN NaN, example_bar 6 5 (Num 3) (Num 50)] 8 =
     Inr [with_EMAsignal (example_bar 5 4 NaN NaN) 0,
          with_EMAsignal (example_bar 6 5 (Num 3) (Num 50)) 0] \<and>
   map bar_of [with_EMAsignal (example_bar 5 4 NaN NaN) 0,
               with_EMAsignal (example_bar 6 5 (Num 3) (Num 50)) 0] =
     [example_bar 5 4 NaN NaN, example_bar 6 5 (Num 3) (Num 50)] \<and>
   signal_pipeline [example_bar 5 4 NaN NaN, example_bar 6 5 (Num 3) (Num 50)] 8 10 90 =
     Inr [with_TotSignal (with_EMAsignal (example_bar 6 5 (Num 3) (Num 50)) NoTrend) NoSignal] \<and>
   generate_total_signal
     [with_EMAsignal (example_bar 5 4 (Num 3) NaN) StrongDowntrend,
      with_EMAsignal (example_bar 6 5 (Num 3) (Num 5)) StrongUptrend,
      with_EMAsignal (example_bar 7 6 NaN (Num 95)) StrongDowntrend,
      with_EMAsignal (example_bar 3 2 (Num 4) (Num 95)) StrongDowntrend] 10 90 =
     [with_TotSignal (with_EMAsignal (example_bar 6 5 (Num 3) (Num 5)) StrongUptrend) Buy,
      with_TotSignal (with_EMAsignal (example_bar 3 2 (Num 4) (Num 95)) StrongDowntrend) Sell] \<and>
   list_all (\<lambda>r. \<not> isna (RSI r) \<and> \<not> isna (EMA r))
     (generate_total_signal
        [with_EMAsignal (example_bar 5 4 (Num 3) NaN) StrongDowntrend,
         with_EMAsignal (example_bar 6 5 (Num 3) (Num 5)) StrongUptrend,
         with_EMAsignal (example_bar 7 6 NaN (Num 95)) StrongDowntrend,
         with_EMAsignal (example_bar 3 2 (Num 4) (Num 95)) StrongDowntrend] 10 90)"
proof -
  let ?df = "[example_bar 5 4 NaN NaN, example_bar 6 5 (Num 3) (Num 50)]"
  let ?d' = "[with_EMAsignal (example_bar 5 4 NaN NaN) 0,
              with_EMAsignal (example_bar 6 5 (Num 3) (Num 50)) 0]"
  let ?d = "[with_EMAsignal (example_bar 5 4 (Num 3) NaN) StrongDowntrend,
      with_EMAsignal (example_bar 6 5 (Num 3) (Num 5)) StrongUptrend,
      with_EMAsignal (example_bar 7 6 NaN (Num 95)) StrongDowntrend,
      with_EMAsignal (example_bar 3 2 (Num 4) (Num 95)) StrongDowntrend]"
  note th = na_rows_dropped_last[of ?df 8 10 90 ?d]
  have g: "generate_ema_signal ?df 8 = Inr ?d'"
    by (simp add: generate_ema_signal_def py_range_def)
  from th g have rows: "map bar_of ?d' = ?df" by blast
  have dd: "dropna ?d' = [with_EMAsignal (example_bar 6 5 (Num 3) (Num 50)) 0]"
    by (simp add: dropna_def row_has_na_def isna_def example_bar_def with_EMAsignal_def)
  from th have "signal_pipeline ?df 8 10 90 =
     (case generate_ema_signal ?df 8 of
        Inl e \<Rightarrow> Inl e
      | Inr d' \<Rightarrow> Inr (map (\<lambda>r. with_TotSignal r (tot_row r 10 90)) (dropna d')))"
    by blast
  moreover have "EMAsignal (with_EMAsignal (example_bar 6 5 (Num 3) (Num 50)) 0) = 0"
    by (simp add: with_EMAsignal_def)
  ultimately have p: "signal_pipeline ?df 8 10 90 =
     Inr [with_TotSignal (with_EMAsignal (example_bar 6 5 (Num 3) (Num 50)) 0) 0]"
    by (simp add: g dd tot_row_cases)
  have out: "generate_total_signal ?d 10 90 =
     [with_TotSignal (with_EMAsignal (example_bar 6 5 (Num 3) (Num 5)) 2) 2,
      with_TotSignal (with_EMAsignal (example_bar 3 2 (Num 4) (Num 95)) 1) 1]"
    by (simp add: generate_total_signal_alt dropna_def row_has_na_def isna_def example_bar_def
        with_EMAsignal_def tot_row_cases)
  from th have "\<forall>r \<in> set (generate_total_signal ?d 10 90). \<not> isna (RSI r) \<and> \<not> isna (EMA r)"
    by blast
  then have la: "list_all (\<lambda>r. \<not> isna (RSI r) \<and> \<not> isna (EMA r)) (generate_total_signal ?d 10 90)"
    by (simp add: list_all_iff)
  from g rows p out la show ?thesis by simp
qed

section \<open>Facts about the policy engine\<close>

lemma place_frame:
  "trades (brk (fst (place t c s))) = trades (brk s) \<and>
   closed_pl (brk (fst (place t c s))) = closed_pl (brk s) \<and>
   mysize (fst (place t c s)) = mysize s \<and>
   filter is_entry (orders (brk (fst (place t c s)))) =
     filter is_entry (orders (brk s)) @ (if is_entry c \<and> \<not> rejects t c then [c] else [])"
  by (simp add: place_def)

lemma Strategy1_next_polite:
  "length (trades (brk (fst (Strategy1_next t s)))) = length (trades (brk s)) \<and>
   length (filter is_entry (orders (brk (fst (Strategy1_next t s))))) \<le>
     length (filter is_entry (orders (brk s))) + (if trades (brk s) = [] then 1 else 0)"
  by (simp add: Strategy1_next_def resize_def buy_def sell_def place_frame Let_def)

lemma Strategy2_next_polite:
  "length (trades (brk (fst (Strategy2_next t s)))) = length (trades (brk s)) \<and>
   length (filter is_entry (orders (brk (fst (Strategy2_next t s))))) \<le>
     length (filter is_entry (orders (brk s))) + (if trades (brk s) = [] then 1 else 0)"
  by (simp add: Strategy2_next_def buy_def sell_def place_frame Let_def)

lemma set_sl_frame:
  "length (trades (brk (fst (set_sl t k p s)))) = length (trades (brk s)) \<and>
   orders (brk (fst (set_sl t k p s))) = orders (brk s) \<and>
   mysize (fst (set_sl t k p s)) = mysize s"
  by (simp add: set_sl_def)

lemma manage_trade_frame:
  "length (trades (brk (fst (manage_trade t sltr k s)))) = length (trades (brk s)) \<and>
   filter is_entry (orders (brk (fst (manage_trade t sltr k s)))) = filter is_entry (orders (brk s)) \<and>
   mysize (fst (manage_trade t sltr k s)) = mysize s"
  by (simp add: manage_trade_def set_sl_def close_trade_def place_def Let_def)

lemma manage_trades_frame:
  "length (trades (brk (fst (manage_trades t sltr ks s)))) = length (trades (brk s)) \<and>
   filter is_entry (orders (brk (fst (manage_trades t sltr ks s)))) = filter is_entry (orders (brk s)) \<and>
   mysize (fst (manage_trades t sltr ks s)) = mysize s"
proof (induction ks arbitrary: s)
  case Nil
  then show ?case by simp
next
  case (Cons k ks)
  show ?case
  proof (cases "manage_trade t sltr k s")
    case (Pair s' err)
    with manage_trade_frame[of t sltr k s] Cons.IH[of s'] show ?thesis
      by (cases err) auto
  qed
qed

lemma Strategy3_next_polite:
  "length (trades (brk (fst (Strategy3_next t s)))) = length (trades (brk s)) \<and>
   length (filter is_entry (orders (brk (fst (Strategy3_next t s))))) \<le>
     length (filter is_entry (orders (brk s))) + (if trades (brk s) = [] then 1 else 0)"
proof (cases "manage_trades t (1.5 * data_ATR t) [0..<length (trades (brk s))] s")
  case (Pair s' err)
  with manage_trades_frame[of t "1.5 * data_ATR t" "[0..<length (trades (brk s))]" s]
  show ?thesis
    by (cases err) (auto simp: Strategy3_next_def buy_def sell_def place_frame Let_def)
qed

lemma replay_one_trade:
  assumes "fills_only_orders adv" "polite nxt"
    and "length (trades (brk s0)) + length (filter is_entry (orders (brk s0))) \<le> 1"
  shows "\<forall>s \<in> set (replay adv nxt ts s0).
           length (trades (brk s)) + length (filter is_entry (orders (brk s))) \<le> 1"
  using assms(3)
proof (induction ts arbitrary: s0)
  case Nil
  then show ?case by simp
next
  case (Cons t ts)
  let ?s1 = "s0\<lparr>brk := adv t (brk s0)\<rparr>"
  from assms(1) Cons.prems have a: "orders (brk ?s1) = []" "length (trades (brk ?s1)) \<le> 1"
    by (auto simp: fills_only_orders_def intro: order_trans)
  obtain s' err where n: "nxt t ?s1 = (s', err)" by (cases "nxt t ?s1")
  from assms(2) have "length (trades (brk (fst (nxt t ?s1)))) = length (trades (brk ?s1)) \<and>
     length (filter is_entry (orders (brk (fst (nxt t ?s1))))) \<le>
       length (filter is_entry (orders (brk ?s1))) + (if trades (brk ?s1) = [] then 1 else 0)"
    unfolding polite_def by blast
  with a n have inv: "length (trades (brk s')) + length (filter is_entry (orders (brk s'))) \<le> 1"
    by (auto split: if_splits)
  show ?case
  proof (cases err)
    case None
    with n inv Cons.IH[OF inv] show ?thesis by simp
  next
    case (Some e)
    with n inv show ?thesis by simp
  qed
qed

lemma no_entry_when_open1:
  "trades (brk s) \<noteq> [] \<Longrightarrow>
   filter is_entry (orders (brk (fst (Strategy1_next t s)))) = filter is_entry (orders (brk s))"
  by (simp add: Strategy1_next_def resize_def Let_def)

lemma no_entry_when_open2:
  "trades (brk s) \<noteq> [] \<Longrightarrow>
   filter is_entry (orders (brk (fst (Strategy2_next t s)))) = filter is_entry (orders (brk s))"
  by (simp add: Strategy2_next_def Let_def)

lemma no_entry_when_open3:
  assumes "trades (brk s) \<noteq> []"
  shows "filter is_entry (orders (brk (fst (Strategy3_next t s)))) = filter is_entry (orders (brk s))"
proof (cases "manage_trades t (1.5 * data_ATR t) [0..<length (trades (brk s))] s")
  case (Pair s' err)
  with manage_trades_frame[of t "1.5 * data_ATR t" "[0..<length (trades (brk s))]" s] assms
  show ?thesis
    by (cases err) (auto simp: Strategy3_next_def Let_def)
qed

lemma length_trade_of: "length (concat (map trade_of cs)) = length (filter is_entry cs)"
proof (induction cs)
  case Nil
  then show ?case by simp
next
  case (Cons c cs)
  then show ?case by (cases c) simp_all
qed

lemma fills_only_orders_fill_all: "fills_only_orders fill_all"
  by (simp add: fills_only_orders_def fill_all_def length_trade_of)

text \<open>
  C6. The library's processing between two bars is assumed to execute or cancel every
  pending order and to open a trade only by executing an order that opens one
  (\<open>fills_only_orders\<close>). Then, in each of the three variants and from a start with no
  trade and no order, at most one trade is open after every bar of the replay; and a
  handler adds no order that opens a trade while a trade is open, whatever the signal.
\<close>

theorem one_trade_at_a_time:
  assumes "fills_only_orders adv" "trades (brk s0) = []" "orders (brk s0) = []"
    and "nxt = Strategy1_next \<or> nxt = Strategy2_next \<or> nxt = Strategy3_next"
  shows "(\<forall>s \<in> set (replay adv nxt ts s0). length (trades (brk s)) \<le> 1) \<and>
         (\<forall>t s. trades (brk s) \<noteq> [] \<longrightarrow>
            filter is_entry (orders (brk (fst (nxt t s)))) = filter is_entry (orders (brk s)))"
proof -
  have p: "polite nxt"
    using assms(4) Strategy1_next_polite Strategy2_next_polite Strategy3_next_polite
    unfolding polite_def by blast
  have "length (trades (brk s0)) + length (filter is_entry (orders (brk s0))) \<le> 1"
    using assms(2,3) by simp
  from replay_one_trade[OF assms(1) p this, of ts]
  have "\<forall>s \<in> set (replay adv nxt ts s0). length (trades (brk s)) \<le> 1" by auto
  moreover have "\<forall>t s. trades (brk s) \<noteq> [] \<longrightarrow>
      filter is_entry (orders (brk (fst (nxt t s)))) = filter is_entry (orders (brk s))"
    using assms(4) no_entry_when_open1 no_entry_when_open2 no_entry_when_open3 by blast
  ultimately show ?thesis by simp
qed

theorem one_trade_at_a_time_witness:
  "fills_only_orders fill_all \<and> trades (brk fresh) = [] \<and> orders (brk fresh) = [] \<and>
   list_all (\<lambda>s. length (trades (brk s)) \<le> 1)
     (replay fill_all Strategy3_next
        [example_tick 2 1 1, example_tick 2 1 1, example_tick 1 1 1, example_tick 1 1 1] fresh) \<and>
   map (\<lambda>s. length (trades (brk s)))
     (replay fill_all Strategy3_next
        [example_tick 2 1 1, example_tick 2 1 1, example_tick 1 1 1, example_tick 1 1 1] fresh) =
     [0, 1, 1, 1]"
proof -
  have f: "trades (brk fresh) = []" "orders (brk fresh) = []"
    by (simp_all add: fresh_def)
  have run: "map (\<lambda>s. length (trades (brk s)))
     (replay fill_all Strategy3_next
        [example_tick 2 1 1, example_tick 2 1 1, example_tick 1 1 1, example_tick 1 1 1] fresh) =
     [0, 1, 1, 1]"
    by (simp add: fresh_def example_tick_def no_reject_def fill_all_def Strategy3_next_def
        manage_trade_def set_sl_def close_trade_def buy_def sell_def place_def Let_def)
  from one_trade_at_a_time[OF fills_only_orders_fill_all f, of Strategy3_next]
  have "\<forall>s \<in> set (replay fill_all Strategy3_next
        [example_tick 2 1 1, example_tick 2 1 1, example_tick 1 1 1, example_tick 1 1 1] fresh).
      length (trades (brk s)) \<le> 1"
    by blast
  then show ?thesis
    using f run fills_only_orders_fill_all by (simp add: list_all_iff)
qed

lemma mysize_Strategy1_next:
  "mysize (fst (Strategy1_next t s)) = mysize (resize t s)"
  by (simp add: Strategy1_next_def buy_def sell_def place_frame Let_def)

lemma resize_power:
  "\<exists>j. mysize s = initsize * 2 ^ j \<Longrightarrow> \<exists>j. mysize (resize t s) = initsize * 2 ^ j"
proof -
  assume "\<exists>j. mysize s = initsize * 2 ^ j"
  then obtain j where j: "mysize s = initsize * 2 ^ j" by blast
  have "mysize (resize t s) = initsize * 2 ^ Suc j \<or> mysize (resize t s) = initsize * 2 ^ 0
        \<or> mysize (resize t s) = initsize * 2 ^ j"
    by (simp add: resize_def j)
  then show ?thesis by blast
qed

lemma replay_size_power:
  "\<exists>j. mysize s0 = initsize * 2 ^ j \<Longrightarrow>
   \<forall>s \<in> set (replay adv Strategy1_next ts s0). \<exists>j. mysize s = initsize * 2 ^ j"
proof (induction ts arbitrary: s0)
  case Nil
  then show ?case by simp
next
  case (Cons t ts)
  let ?s1 = "s0\<lparr>brk := adv t (brk s0)\<rparr>"
  obtain s' err where n: "Strategy1_next t ?s1 = (s', err)" by (cases "Strategy1_next t ?s1")
  from Cons.prems have "\<exists>j. mysize ?s1 = initsize * 2 ^ j" by simp
  from resize_power[OF this, of t] mysize_Strategy1_next[of t ?s1] n
  have p: "\<exists>j. mysize s' = initsize * 2 ^ j" by simp
  show ?case
  proof (cases err)
    case None
    with n p Cons.IH[OF p] show ?thesis by simp
  next
    case (Some e)
    with n p show ?thesis by simp
  qed
qed

text \<open>
  C2, as stated, fails. The size is doubled on a bar that has a signal and no open
  trade, not when the loss is closed. On a market that closes every trade at a loss:
  the first bar places an order, the trade is open on the second and closed at a loss on
  the third, which carries no signal. After the third bar one losing trade is closed
  (\<open>k = 1\<close>) and the size is still \<open>initsize\<close>, not \<open>initsize * 2\<close>.
\<close>

theorem size_not_doubled_at_loss:
  "map (\<lambda>s. (mysize s, closed_pl (brk s)))
     (replay losing_market Strategy1_next
        [example_tick 2 1 1, example_tick 0 1 1, example_tick 0 1 1] fresh) =
     [(initsize, []), (initsize, []), (initsize, [- 1])] \<and>
   initsize \<noteq> initsize * 2 ^ losing_run [- 1]"
  by (simp add: fresh_def example_tick_def no_reject_def losing_market_def Strategy1_next_def
      resize_def buy_def sell_def place_def Let_def losing_run_def initsize_def)

text \<open>
  C2, amended. From a start with \<open>mysize = initsize\<close>, after every bar of the replay
  the size is \<open>initsize * 2 ^ j\<close> for some \<open>j\<close>; and on each bar the size is doubled
  exactly when the signal is active, no trade is open and the last closed trade has a
  negative profit; it is reset to \<open>initsize\<close> exactly when that does not hold and the last
  closed trade has a positive profit; otherwise it is unchanged. So \<open>j\<close> counts the bars
  since the last reset on which the doubling condition held.
\<close>

theorem size_is_power_of_two:
  assumes "mysize s0 = initsize"
  shows "(\<forall>s \<in> set (replay adv Strategy1_next ts s0). \<exists>j. mysize s = initsize * 2 ^ j) \<and>
     (\<forall>t s. mysize (fst (Strategy1_next t s)) =
        (if signal1 t > 0 \<and> trades (brk s) = [] \<and> closed_pl (brk s) \<noteq> [] \<and>
            last (closed_pl (brk s)) < 0
         then mysize s * 2
         else if closed_pl (brk s) \<noteq> [] \<and> last (closed_pl (brk s)) > 0 then initsize
         else mysize s))"
proof -
  have "\<exists>j. mysize s0 = initsize * 2 ^ j"
    using assms by (intro exI[of _ 0]) simp
  from replay_size_power[OF this]
  have "\<forall>s \<in> set (replay adv Strategy1_next ts s0). \<exists>j. mysize s = initsize * 2 ^ j" .
  moreover have "\<forall>t s. mysize (fst (Strategy1_next t s)) =
        (if signal1 t > 0 \<and> trades (brk s) = [] \<and> closed_pl (brk s) \<noteq> [] \<and>
            last (closed_pl (brk s)) < 0
         then mysize s * 2
         else if closed_pl (brk s) \<noteq> [] \<and> last (closed_pl (brk s)) > 0 then initsize
         else mysize s)"
    by (simp add: mysize_Strategy1_next resize_def)
  ultimately show ?thesis by simp
qed

theorem size_is_power_of_two_witness:
  "mysize (fresh\<lparr>brk := (brk fresh)\<lparr>closed_pl := [- 1]\<rparr>\<rparr>) = initsize \<and>
   list_all (\<lambda>s. \<exists>j. mysize s = initsize * 2 ^ j)
     (replay hold Strategy1_next [example_tick 2 1 1, example_tick 0 1 1, example_tick 1 1 1]
        (fresh\<lparr>brk := (brk fresh)\<lparr>closed_pl := [- 1]\<rparr>\<rparr>)) \<and>
   map mysize
     (replay hold Strategy1_next [example_tick 2 1 1, example_tick 0 1 1, example_tick 1 1 1]
        (fresh\<lparr>brk := (brk fresh)\<lparr>closed_pl := [- 1]\<rparr>\<rparr>)) =
     [initsize * 2, initsize * 2, initsize * 2 * 2]"
proof -
  let ?s0 = "fresh\<lparr>brk := (brk fresh)\<lparr>closed_pl := [- 1]\<rparr>\<rparr>"
  have m: "mysize ?s0 = initsize" by (simp add: fresh_def)
  have run: "map mysize
     (replay hold Strategy1_next [example_tick 2 1 1, example_tick 0 1 1, example_tick 1 1 1] ?s0) =
     [initsize * 2, initsize * 2, initsize * 2 * 2]"
    by (simp add: fresh_def example_tick_def no_reject_def hold_def Strategy1_next_def
        resize_def buy_def sell_def place_def Let_def)
  from size_is_power_of_two[OF m, of hold
      "[example_tick 2 1 1, example_tick 0 1 1, example_tick 1 1 1]"]
  have "\<forall>s \<in> set (replay hold Strategy1_next
      [example_tick 2 1 1, example_tick 0 1 1, example_tick 1 1 1] ?s0).
      \<exists>j. mysize s = initsize * 2 ^ j"
    by blast
  then show ?thesis using m run by (simp add: list_all_iff)
qed

lemma Strategy3_next_long:
  assumes "trades (brk s) = [tr]" "is_long tr" "sl tr = Some x" "x \<noteq> 0"
  shows "map sl (trades (brk (fst (Strategy3_next t s)))) =
           [Some (if rejects t (SetStop 0 (max x (data_Close t - 1.5 * data_ATR t))) then x
                  else max x (data_Close t - 1.5 * data_ATR t))] \<and>
         map is_long (trades (brk (fst (Strategy3_next t s)))) = [True]"
  using assms
  by (simp add: Strategy3_next_def manage_trade_def set_sl_def close_trade_def place_def
      trail_long_def buy_def sell_def Let_def)

lemma Strategy3_next_short:
  assumes "trades (brk s) = [tr]" "\<not> is_long tr" "sl tr = Some x" "x \<noteq> 0"
  shows "map sl (trades (brk (fst (Strategy3_next t s)))) =
           [Some (if rejects t (SetStop 0 (min x (data_Close t + 1.5 * data_ATR t))) then x
                  else min x (data_Close t + 1.5 * data_ATR t))] \<and>
         map is_long (trades (brk (fst (Strategy3_next t s)))) = [False]"
  using assms
  by (simp add: Strategy3_next_def manage_trade_def set_sl_def close_trade_def place_def
      trail_short_def buy_def sell_def Let_def)

lemma single_trade:
  "map sl ts = [Some y] \<Longrightarrow> map is_long ts = [b] \<Longrightarrow> \<exists>tr. ts = [tr] \<and> sl tr = Some y \<and> is_long tr = b"
  by (cases ts) auto

lemma replay_trail_long:
  assumes "keeps_trades adv"
  shows "trades (brk s0) = [tr] \<Longrightarrow> is_long tr \<Longrightarrow> sl tr = Some x \<Longrightarrow> 0 < x \<Longrightarrow>
     \<exists>xs. map (\<lambda>s. map sl (trades (brk s))) (replay adv Strategy3_next ts s0) =
             map (\<lambda>y. [Some y]) xs \<and> sorted (x # xs)"
proof (induction ts arbitrary: s0 tr x)
  case Nil
  show ?case by (intro exI[of _ "[]"]) simp
next
  case (Cons t ts)
  let ?s1 = "s0\<lparr>brk := adv t (brk s0)\<rparr>"
  let ?y = "if rejects t (SetStop 0 (max x (data_Close t - 1.5 * data_ATR t))) then x
            else max x (data_Close t - 1.5 * data_ATR t)"
  have tr1: "trades (brk ?s1) = [tr]"
    using assms Cons.prems(1) by (simp add: keeps_trades_def)
  obtain s' err where n: "Strategy3_next t ?s1 = (s', err)" by (cases "Strategy3_next t ?s1")
  from Strategy3_next_long[OF tr1 Cons.prems(2,3), of t] Cons.prems(4) n
  have st: "map sl (trades (brk s')) = [Some ?y]" "map is_long (trades (brk s')) = [True]"
    by auto
  from single_trade[OF st] obtain tr' where tr': "trades (brk s') = [tr']" "sl tr' = Some ?y" "is_long tr'"
    by auto
  have y: "x \<le> ?y" "0 < ?y" using Cons.prems(4) by auto
  show ?case
  proof (cases err)
    case (Some e)
    with n st y show ?thesis by (intro exI[of _ "[?y]"]) simp
  next
    case None
    from Cons.IH[OF tr'(1) tr'(3) tr'(2) y(2)] obtain xs where
      xs: "map (\<lambda>s. map sl (trades (brk s))) (replay adv Strategy3_next ts s') = map (\<lambda>y. [Some y]) xs"
        "sorted (?y # xs)"
      by blast
    from xs(2) y(1) have "sorted (x # ?y # xs)" by auto
    with None n st xs(1) show ?thesis by (intro exI[of _ "?y # xs"]) simp
  qed
qed

lemma replay_trail_short:
  assumes "keeps_trades adv"
  shows "trades (brk s0) = [tr] \<Longrightarrow> \<not> is_long tr \<Longrightarrow> sl tr = Some x \<Longrightarrow> 0 < x \<Longrightarrow>
     \<forall>t \<in> set ts. 0 < data_Close t + 1.5 * data_ATR t \<Longrightarrow>
     \<exists>xs. map (\<lambda>s. map sl (trades (brk s))) (replay adv Strategy3_next ts s0) =
             map (\<lambda>y. [Some y]) xs \<and> sorted_wrt (\<ge>) (x # xs)"
proof (induction ts arbitrary: s0 tr x)
  case Nil
  show ?case by (intro exI[of _ "[]"]) simp
next
  case (Cons t ts)
  let ?s1 = "s0\<lparr>brk := adv t (brk s0)\<rparr>"
  let ?y = "if rejects t (SetStop 0 (min x (data_Close t + 1.5 * data_ATR t))) then x
            else min x (data_Close t + 1.5 * data_ATR t)"
  have tr1: "trades (brk ?s1) = [tr]"
    using assms Cons.prems(1) by (simp add: keeps_trades_def)
  obtain s' err where n: "Strategy3_next t ?s1 = (s', err)" by (cases "Strategy3_next t ?s1")
  from Strategy3_next_short[OF tr1 Cons.prems(2,3), of t] Cons.prems(4) n
  have st: "map sl (trades (brk s')) = [Some ?y]" "map is_long (trades (brk s')) = [False]"
    by auto
  from single_trade[OF st] obtain tr' where tr': "trades (brk s') = [tr']" "sl tr' = Some ?y" "\<not> is_long tr'"
    by auto
  have y: "?y \<le> x" "0 < ?y" using Cons.prems(4,5) by auto
  have rest: "\<forall>t \<in> set ts. 0 < data_Close t + 1.5 * data_ATR t" using Cons.prems(5) by simp
  show ?case
  proof (cases err)
    case (Some e)
    with n st y show ?thesis by (intro exI[of _ "[?y]"]) simp
  next
    case None
    from Cons.IH[OF tr'(1) tr'(3) tr'(2) y(2) rest] obtain xs where
      xs: "map (\<lambda>s. map sl (trades (brk s))) (replay adv Strategy3_next ts s') = map (\<lambda>y. [Some y]) xs"
        "sorted_wrt (\<ge>) (?y # xs)"
      by blast
    from xs(2) y(1) have "sorted_wrt (\<ge>) (x # ?y # xs)" by auto
    with None n st xs(1) show ?thesis by (intro exI[of _ "?y # xs"]) simp
  qed
qed

lemma keeps_trades_hold: "keeps_trades hold"
  by (simp add: keeps_trades_def hold_def)

text \<open>
  C5. Over the bars on which the library leaves the open trade in place
  (\<open>keeps_trades\<close>), for one open trade with a positive stop \<open>x\<close>: the stops after the
  successive bars, preceded by \<open>x\<close>, are non-decreasing for a long trade and
  non-increasing for a short one (for a short trade the prices \<open>close + 1.5 * ATR\<close> of
  the bars are taken to be positive as well). Each bar sets the stop of a long trade to
  the maximum of its stop and \<open>close - 1.5 * ATR\<close>, and the stop of a short trade to the
  minimum of its stop and \<open>close + 1.5 * ATR\<close> (when the library refuses the call, the
  stop stays).
\<close>

theorem trailing_stop_monotone:
  assumes "keeps_trades adv" "trades (brk s0) = [tr]" "sl tr = Some x" "0 < x"
    and "\<not> is_long tr \<longrightarrow> (\<forall>t \<in> set ts. 0 < data_Close t + 1.5 * data_ATR t)"
  shows "(\<exists>xs. map (\<lambda>s. map sl (trades (brk s))) (replay adv Strategy3_next ts s0) =
                map (\<lambda>y. [Some y]) xs \<and>
              (if is_long tr then sorted (x # xs) else sorted_wrt (\<ge>) (x # xs))) \<and>
         (\<forall>t. map sl (trades (brk (fst (Strategy3_next t s0)))) =
            (if is_long tr then
               [Some (if rejects t (SetStop 0 (max x (data_Close t - 1.5 * data_ATR t))) then x
                      else max x (data_Close t - 1.5 * data_ATR t))]
             else
               [Some (if rejects t (SetStop 0 (min x (data_Close t + 1.5 * data_ATR t))) then x
                      else min x (data_Close t + 1.5 * data_ATR t))]))"
proof (cases "is_long tr")
  case True
  from replay_trail_long[OF assms(1,2) True assms(3,4), of ts]
    Strategy3_next_long[OF assms(2) True assms(3)] assms(4) True
  show ?thesis by auto
next
  case False
  with assms(5) have "\<forall>t \<in> set ts. 0 < data_Close t + 1.5 * data_ATR t" by simp
  from replay_trail_short[OF assms(1,2) False assms(3,4) this]
    Strategy3_next_short[OF assms(2) False assms(3)] assms(4) False
  show ?thesis by auto
qed

theorem trailing_stop_monotone_witness:
  "keeps_trades hold \<and>
   map (\<lambda>s. map sl (trades (brk s)))
     (replay hold Strategy3_next [example_tick 0 10 2, example_tick 0 8 2, example_tick 0 12 2]
        (fresh\<lparr>brk := (brk fresh)\<lparr>trades := [\<lparr>is_long = True, sl = Some 5\<rparr>]\<rparr>\<rparr>)) =
     [[Some 7], [Some 7], [Some 9]] \<and>
   sorted [5, 7, 7, 9 :: real]"
proof -
  let ?s0 = "fresh\<lparr>brk := (brk fresh)\<lparr>trades := [\<lparr>is_long = True, sl = Some 5\<rparr>]\<rparr>\<rparr>"
  let ?ts = "[example_tick 0 10 2, example_tick 0 8 2, example_tick 0 12 2]"
  have t0: "trades (brk ?s0) = [\<lparr>is_long = True, sl = Some 5\<rparr>]"
    by (simp add: fresh_def)
  have run: "map (\<lambda>s. map sl (trades (brk s))) (replay hold Strategy3_next ?ts ?s0) =
     [[Some 7], [Some 7], [Some 9]]"
    by (simp add: fresh_def example_tick_def no_reject_def hold_def Strategy3_next_def
        manage_trade_def set_sl_def close_trade_def place_def trail_long_def buy_def sell_def
        Let_def)
  from trailing_stop_monotone[OF keeps_trades_hold t0, of 5 ?ts]
  obtain xs where xs: "map (\<lambda>s. map sl (trades (brk s))) (replay hold Strategy3_next ?ts ?s0) =
      map (\<lambda>y. [Some y]) xs" "sorted (5 # xs)"
    by auto
  from xs(1) run have "map (\<lambda>y. [Some y]) xs = [[Some 7], [Some 7], [Some 9]]" by simp
  then have "xs = [7, 7, 9]" by auto
  with xs(2) have "sorted [5, 7, 7, 9 :: real]" by simp
  with run keeps_trades_hold show ?thesis by simp
qed

text \<open>
  The stop is taken positive above because a stop of exactly \<open>0.0\<close> counts as false in
  \<open>trade.sl or -np.inf\<close>, like no stop at all: the update then sets the candidate,
  whatever it is.
\<close>

lemma trail_zero_stop:
  "trail_long (Some 0) x = x \<and> trail_short (Some 0) x = x \<and>
   trail_long None x = x \<and> trail_short None x = x"
  by (simp add: trail_long_def trail_short_def)

text \<open>
  C8, as stated, fails. Variant A, one closed trade with a loss, no open trade, a Buy
  signal, and a bar on which the library refuses the order: the size is doubled before
  the order is placed, the call raises, and the size stays doubled.
\<close>

theorem failed_order_keeps_doubled_size:
  "Strategy1_next \<lparr>signal1 = 2, data_Close = 1, data_ATR = 1, rejects = reject_all\<rparr>
     \<lparr>mysize = initsize, brk = \<lparr>trades = [], closed_pl = [- 1], orders = []\<rparr>\<rparr> =
     (\<lparr>mysize = initsize * 2, brk = \<lparr>trades = [], closed_pl = [- 1], orders = []\<rparr>\<rparr>,
      Some OrderRejected) \<and>
   initsize * 2 \<noteq> initsize"
  by (simp add: Strategy1_next_def resize_def buy_def place_def reject_all_def Let_def
      initsize_def)

lemma Strategy1_next_failed:
  "snd (Strategy1_next t s) \<noteq> None \<Longrightarrow> fst (Strategy1_next t s) = resize t s"
  by (auto simp: Strategy1_next_def buy_def sell_def place_def Let_def split: if_splits)

lemma Strategy2_next_failed:
  "snd (Strategy2_next t s) \<noteq> None \<Longrightarrow> fst (Strategy2_next t s) = s"
  by (auto simp: Strategy2_next_def buy_def sell_def place_def Let_def split: if_splits)

lemma Strategy3_next_failed_entry:
  "trades (brk s) = [] \<Longrightarrow> snd (Strategy3_next t s) \<noteq> None \<Longrightarrow> fst (Strategy3_next t s) = s"
  by (auto simp: Strategy3_next_def buy_def sell_def place_def Let_def split: if_splits)

lemma Strategy3_next_failed_close:
  assumes "trades (brk s) = [tr]" "is_long tr" "signal1 t = 1"
    and "\<not> rejects t (SetStop 0 (trail_long (sl tr) (data_Close t - 1.5 * data_ATR t)))"
    and "rejects t (CloseTrade 0)"
  shows "Strategy3_next t s =
     (s\<lparr>brk := (brk s)\<lparr>trades :=
         [tr\<lparr>sl := Some (trail_long (sl tr) (data_Close t - 1.5 * data_ATR t))\<rparr>]\<rparr>\<rparr>,
      Some OrderRejected)"
  using assms
  by (simp add: Strategy3_next_def manage_trade_def set_sl_def close_trade_def place_def Let_def)

text \<open>
  C8, amended. No handler undoes anything when a call fails. In variant A the strategy
  after a failed call is the one the doubling and reset rule gives on that bar: the
  adjustment is kept. In variant B it is unchanged, and so it is in variant C when no
  trade is open (the failed call is then the first of the bar). In variant C with an
  open long trade and a Sell signal, when the stop is written and the close call that
  follows fails, the new stop is kept.
\<close>

theorem failed_call_no_rollback:
  "(snd (Strategy1_next t s) \<noteq> None \<longrightarrow> fst (Strategy1_next t s) = resize t s) \<and>
   (snd (Strategy2_next t s) \<noteq> None \<longrightarrow> fst (Strategy2_next t s) = s) \<and>
   (trades (brk s) = [] \<and> snd (Strategy3_next t s) \<noteq> None \<longrightarrow> fst (Strategy3_next t s) = s) \<and>
   (trades (brk s) = [tr] \<and> is_long tr \<and> signal1 t = 1 \<and>
    \<not> rejects t (SetStop 0 (trail_long (sl tr) (data_Close t - 1.5 * data_ATR t))) \<and>
    rejects t (CloseTrade 0) \<longrightarrow>
      Strategy3_next t s =
        (s\<lparr>brk := (brk s)\<lparr>trades :=
            [tr\<lparr>sl := Some (trail_long (sl tr) (data_Close t - 1.5 * data_ATR t))\<rparr>]\<rparr>\<rparr>,
         Some OrderRejected))"
  using Strategy1_next_failed Strategy2_next_failed Strategy3_next_failed_entry
    Strategy3_next_failed_close
  by blast

theorem failed_call_no_rollback_witness:
  "fst (Strategy1_next \<lparr>signal1 = 2, data_Close = 1, data_ATR = 1, rejects = reject_all\<rparr>
          (fresh\<lparr>brk := (brk fresh)\<lparr>closed_pl := [- 1]\<rparr>\<rparr>)) =
     fresh\<lparr>mysize := initsize * 2, brk := (brk fresh)\<lparr>closed_pl := [- 1]\<rparr>\<rparr> \<and>
   fst (Strategy2_next \<lparr>signal1 = 2, data_Close = 1, data_ATR = 1, rejects = reject_all\<rparr> fresh) =
     fresh \<and>
   fst (Strategy3_next \<lparr>signal1 = 2, data_Close = 1, data_ATR = 1, rejects = reject_all\<rparr> fresh) =
     fresh \<and>
   Strategy3_next \<lparr>signal1 = 1, data_Close = 10, data_ATR = 2, rejects = reject_close\<rparr>
       (fresh\<lparr>brk := (brk fresh)\<lparr>trades := [\<lparr>is_long = True, sl = Some 5\<rparr>]\<rparr>\<rparr>) =
     (fresh\<lparr>brk := (brk fresh)\<lparr>trades := [\<lparr>is_long = True, sl = Some 7\<rparr>]\<rparr>\<rparr>,
      Some OrderRejected)"
proof -
  let ?t = "\<lparr>signal1 = 2, data_Close = 1, data_ATR = 1, rejects = reject_all\<rparr>"
  let ?tc = "\<lparr>signal1 = 1, data_Close = 10, data_ATR = 2, rejects = reject_close\<rparr>"
  let ?s1 = "fresh\<lparr>brk := (brk fresh)\<lparr>closed_pl := [- 1]\<rparr>\<rparr>"
  let ?s3 = "fresh\<lparr>brk := (brk fresh)\<lparr>trades := [\<lparr>is_long = True, sl = Some 5\<rparr>]\<rparr>\<rparr>"
  have f1: "snd (Strategy1_next ?t ?s1) \<noteq> None"
    by (simp add: Strategy1_next_def resize_def buy_def place_def reject_all_def fresh_def Let_def)
  have f2: "snd (Strategy2_next ?t fresh) \<noteq> None"
    by (simp add: Strategy2_next_def buy_def place_def reject_all_def fresh_def Let_def)
  have f3: "trades (brk fresh) = [] \<and> snd (Strategy3_next ?t fresh) \<noteq> None"
    by (simp add: Strategy3_next_def buy_def place_def reject_all_def fresh_def Let_def)
  have f4: "trades (brk ?s3) = [\<lparr>is_long = True, sl = Some 5\<rparr>] \<and>
      is_long \<lparr>is_long = True, sl = Some 5\<rparr> \<and> signal1 ?tc = 1 \<and>
      \<not> rejects ?tc (SetStop 0 (trail_long (sl \<lparr>is_long = True, sl = Some 5\<rparr>)
          (data_Close ?tc - 1.5 * data_ATR ?tc))) \<and>
      rejects ?tc (CloseTrade 0)"
    by (simp add: fresh_def)
  have r: "resize ?t ?s1 = fresh\<lparr>mysize := initsize * 2, brk := (brk fresh)\<lparr>closed_pl := [- 1]\<rparr>\<rparr>"
    by (simp add: resize_def fresh_def)
  from failed_call_no_rollback[of ?t ?s1] f1 r
  have a: "fst (Strategy1_next ?t ?s1) =
      fresh\<lparr>mysize := initsize * 2, brk := (brk fresh)\<lparr>closed_pl := [- 1]\<rparr>\<rparr>"
    by simp
  from failed_call_no_rollback[of ?t fresh] f2 f3
  have b: "fst (Strategy2_next ?t fresh) = fresh" "fst (Strategy3_next ?t fresh) = fresh"
    by blast+
  from failed_call_no_rollback[of ?tc ?s3 "\<lparr>is_long = True, sl = Some 5\<rparr>"] f4
  have "Strategy3_next ?tc ?s3 =
      (?s3\<lparr>brk := (brk ?s3)\<lparr>trades := [\<lparr>is_long = True, sl = Some 5\<rparr>\<lparr>sl :=
          Some (trail_long (sl \<lparr>is_long = True, sl = Some 5\<rparr>)
            (data_Close ?tc - 1.5 * data_ATR ?tc))\<rparr>]\<rparr>\<rparr>, Some OrderRejected)"
    by blast
  then have c: "Strategy3_next ?tc ?s3 =
      (fresh\<lparr>brk := (brk fresh)\<lparr>trades := [\<lparr>is_long = True, sl = Some 7\<rparr>]\<rparr>\<rparr>, Some OrderRejected)"
    by (simp add: trail_long_def fresh_def)
  from a b c show ?thesis by simp
qed

end
